theory Spec2Isabelle
  imports Complex_Main "HOL-Library.Word" "HOL-Library.Monad_Syntax"
begin

unbundle bit_operations_syntax

section \<open>JavaScript values\<close>

text \<open>
  The validators of \<^verbatim>\<open>examples/viper-duel/server/src/utils/validators.js\<close> receive
  arbitrary JavaScript values. A string is a sequence of 16-bit code units, a Number is an
  IEEE 754 double given by its 64 bits, and an object is a reference together with its data
  properties (as \<^verbatim>\<open>JSON.parse\<close> produces them: no getters, no proxies, an
  unmodified \<^verbatim>\<open>Object.prototype\<close>). Arrays are objects.
\<close>

type_synonym codeunit = "16 word"
type_synonym jsstring = "codeunit list"
type_synonym number = "64 word"

datatype jsvalue =
    JUndefined
  | JNull
  | JBool bool
  | JNum number
  | JBigInt int
  | JStr jsstring
  | JSymbol nat
  | JFunction nat
  | JObj nat "(jsstring \<times> jsvalue) list"

text \<open>A string literal of the source, as code units (the literals are all ASCII).\<close>

definition lit :: "string \<Rightarrow> jsstring" where
  "lit s = map of_char s"

subsection \<open>Numbers\<close>

definition magnitude :: "number \<Rightarrow> number" where
  "magnitude x = x AND 0x7FFFFFFFFFFFFFFF"

definition is_nan :: "number \<Rightarrow> bool" where
  "is_nan x = (0x7FF0000000000000 < magnitude x)"

definition is_zero :: "number \<Rightarrow> bool" where
  "is_zero x = (magnitude x = 0)"

text \<open>
  The Number values of the numeric literals of the source, each the double nearest to the
  decimal (lemmas \<open>num_0_01_nearest\<close> and \<open>num_0_1_nearest\<close> below).
\<close>

definition num_0 :: number where "num_0 = 0x0000000000000000"
definition num_0_01 :: number where "num_0_01 = 0x3F847AE147AE147B"
definition num_0_1 :: number where "num_0_1 = 0x3FB999999999999A"
definition num_1 :: number where "num_1 = 0x3FF0000000000000"
definition num_2 :: number where "num_2 = 0x4000000000000000"

text \<open>Further Number values used as inputs: \<open>-0\<close>, \<open>0.15\<close>, \<open>5\<close> and \<open>NaN\<close>.\<close>

definition num_neg_0 :: number where "num_neg_0 = 0x8000000000000000"
definition num_0_15 :: number where "num_0_15 = 0x3FC3333333333333"
definition num_5 :: number where "num_5 = 0x4014000000000000"
definition num_NaN :: number where "num_NaN = 0x7FF8000000000000"

text \<open>The rational value of a finite double: sign, biased exponent and fraction.\<close>

definition sign_bit :: "number \<Rightarrow> bool" where
  "sign_bit x = bit x 63"

definition biased_exponent :: "number \<Rightarrow> nat" where
  "biased_exponent x = unat (drop_bit 52 x AND 0x7FF)"

definition fraction :: "number \<Rightarrow> nat" where
  "fraction x = unat (x AND 0xFFFFFFFFFFFFF)"

definition double_value :: "number \<Rightarrow> rat" where
  "double_value x =
     (let e = biased_exponent x;
          m = (if e = 0 then fraction x else 2 ^ 52 + fraction x);
          k = (if e = 0 then 1 else e);
          v = (if 1075 \<le> k then of_nat m * 2 ^ (k - 1075) else of_nat m / 2 ^ (1075 - k))
      in if sign_bit x then - v else v)"

text \<open>\<^verbatim>\<open>Number::equal\<close> (the comparison of \<^verbatim>\<open>===\<close> on Numbers, IEEE 754 equality)
  and \<^verbatim>\<open>Number::sameValueZero\<close>.\<close>

definition Number_equal :: "number \<Rightarrow> number \<Rightarrow> bool" where
  "Number_equal x y =
     (if is_nan x then False
      else if is_nan y then False
      else if x = y then True
      else if is_zero x \<and> is_zero y then True
      else False)"

definition Number_sameValueZero :: "number \<Rightarrow> number \<Rightarrow> bool" where
  "Number_sameValueZero x y =
     (if is_nan x \<and> is_nan y then True
      else if is_zero x \<and> is_zero y then True
      else x = y)"

subsection \<open>Operators\<close>

fun typeof :: "jsvalue \<Rightarrow> jsstring" where
  "typeof JUndefined = lit ''undefined''"
| "typeof JNull = lit ''object''"
| "typeof (JBool b) = lit ''boolean''"
| "typeof (JNum x) = lit ''number''"
| "typeof (JBigInt i) = lit ''bigint''"
| "typeof (JStr s) = lit ''string''"
| "typeof (JSymbol r) = lit ''symbol''"
| "typeof (JFunction r) = lit ''function''"
| "typeof (JObj r props) = lit ''object''"

text \<open>\<^verbatim>\<open>ToBoolean\<close>: the truthiness tested by \<^verbatim>\<open>!\<close> and \<^verbatim>\<open>||\<close>.\<close>

fun ToBoolean :: "jsvalue \<Rightarrow> bool" where
  "ToBoolean JUndefined = False"
| "ToBoolean JNull = False"
| "ToBoolean (JBool b) = b"
| "ToBoolean (JNum x) = (\<not> is_zero x \<and> \<not> is_nan x)"
| "ToBoolean (JBigInt i) = (i \<noteq> 0)"
| "ToBoolean (JStr s) = (s \<noteq> [])"
| "ToBoolean (JSymbol r) = True"
| "ToBoolean (JFunction r) = True"
| "ToBoolean (JObj r props) = True"

definition logical_or :: "jsvalue \<Rightarrow> jsvalue \<Rightarrow> jsvalue" where
  "logical_or a b = (if ToBoolean a then a else b)"

text \<open>\<^verbatim>\<open>SameValueZero\<close>, the comparison of \<^verbatim>\<open>Array.prototype.includes\<close>:
  Numbers by \<open>Number_sameValueZero\<close>, objects by reference, the rest by value.\<close>

fun SameValueZero :: "jsvalue \<Rightarrow> jsvalue \<Rightarrow> bool" where
  "SameValueZero (JNum x) (JNum y) = Number_sameValueZero x y"
| "SameValueZero (JObj r props) (JObj r' props') = (r = r')"
| "SameValueZero x y = (x = y)"

fun array_includes :: "jsvalue list \<Rightarrow> jsvalue \<Rightarrow> bool" where
  "array_includes [] searchElement = False"
| "array_includes (e # es) searchElement =
     (SameValueZero searchElement e \<or> array_includes es searchElement)"

text \<open>
  A property read \<^verbatim>\<open>o.k\<close>. On an object it is the property's value, or
  \<^verbatim>\<open>undefined\<close> when the object has none. On \<^verbatim>\<open>undefined\<close> and
  \<^verbatim>\<open>null\<close> JavaScript throws a TypeError, and on another primitive it consults the
  prototype of the wrapper: both are \<open>None\<close> here, and \<open>validateJoinRoomPayload_returns\<close>
  and \<open>validateDirectionPayload_returns\<close> show that the validators never get there.
\<close>

fun Get :: "jsvalue \<Rightarrow> jsstring \<Rightarrow> jsvalue option" where
  "Get (JObj r props) k = Some (case map_of props k of None \<Rightarrow> JUndefined | Some v \<Rightarrow> v)"
| "Get v k = None"

text \<open>The console: the argument lists of the \<^verbatim>\<open>console.log\<close> calls so far.\<close>

type_synonym console = "jsvalue list list"

definition console_log :: "jsvalue list \<Rightarrow> console \<Rightarrow> console" where
  "console_log args con = con @ [args]"

section \<open>Regular expressions\<close>

text \<open>
  The fragment of the pattern language that the two regular expressions of the source use:
  the assertions \<^verbatim>\<open>^\<close> and \<^verbatim>\<open>$\<close>, a pattern character, a character
  class of characters and ranges, and the quantifier \<^verbatim>\<open>{n}\<close> on either.
\<close>

datatype class_atom = ClassChar codeunit | ClassRange codeunit codeunit

datatype re_atom = PatternChar codeunit | CharClass "class_atom list"

datatype re_term = AssertStart | AssertEnd | Atom re_atom | Repeat re_atom nat

record regexp =
  pattern :: "re_term list"
  ignoreCase :: bool

text \<open>
  Case-insensitive matching without the \<^verbatim>\<open>u\<close> flag compares canonicalised code
  units. \<^verbatim>\<open>Canonicalize\<close> upper-cases the one-unit string: below 128 that is the
  ASCII upper case, from 128 on it is the engine's Unicode table, a parameter here (the
  upper-cased string may have several code units).
\<close>

type_synonym case_table = "codeunit \<Rightarrow> jsstring"

definition ascii_upper :: "codeunit \<Rightarrow> codeunit" where
  "ascii_upper ch = (if 0x61 \<le> ch \<and> ch \<le> 0x7A then ch - 0x20 else ch)"

definition toUppercase :: "case_table \<Rightarrow> codeunit \<Rightarrow> jsstring" where
  "toUppercase tab ch = (if ch < 128 then [ascii_upper ch] else tab ch)"

definition Canonicalize :: "case_table \<Rightarrow> bool \<Rightarrow> codeunit \<Rightarrow> codeunit" where
  "Canonicalize tab ic ch =
     (if \<not> ic then ch
      else case toUppercase tab ch of
             [cu] \<Rightarrow> if 128 \<le> ch \<and> cu < 128 then ch else cu
           | _ \<Rightarrow> ch)"

fun class_chars :: "class_atom \<Rightarrow> codeunit list" where
  "class_chars (ClassChar a) = [a]"
| "class_chars (ClassRange lo hi) = map of_nat [unat lo ..< Suc (unat hi)]"

fun char_set :: "re_atom \<Rightarrow> codeunit list" where
  "char_set (PatternChar a) = [a]"
| "char_set (CharClass items) = concat (map class_chars items)"

definition CharacterSetMatcher :: "case_table \<Rightarrow> bool \<Rightarrow> codeunit list \<Rightarrow> codeunit \<Rightarrow> bool" where
  "CharacterSetMatcher tab ic A ch =
     (let cc = Canonicalize tab ic ch in list_ex (\<lambda>a. Canonicalize tab ic a = cc) A)"

fun match_repeat :: "(codeunit \<Rightarrow> bool) \<Rightarrow> nat \<Rightarrow> jsstring \<Rightarrow> jsstring option" where
  "match_repeat P 0 s = Some s"
| "match_repeat P (Suc n) [] = None"
| "match_repeat P (Suc n) (c # cs) = (if P c then match_repeat P n cs else None)"

text \<open>
  Matching the terms of a pattern at index \<open>i\<close> of the input, \<open>rest\<close> being the input
  from \<open>i\<close> on. None of the terms has a choice point, so there is nothing to backtrack.
\<close>

fun match_terms :: "case_table \<Rightarrow> bool \<Rightarrow> re_term list \<Rightarrow> nat \<Rightarrow> jsstring \<Rightarrow> bool" where
  "match_terms tab ic [] i rest = True"
| "match_terms tab ic (AssertStart # ts) i rest = (i = 0 \<and> match_terms tab ic ts i rest)"
| "match_terms tab ic (AssertEnd # ts) i rest = (rest = [] \<and> match_terms tab ic ts i rest)"
| "match_terms tab ic (Atom a # ts) i rest =
     (case rest of
        [] \<Rightarrow> False
      | c # cs \<Rightarrow> CharacterSetMatcher tab ic (char_set a) c \<and> match_terms tab ic ts (Suc i) cs)"
| "match_terms tab ic (Repeat a n # ts) i rest =
     (case match_repeat (CharacterSetMatcher tab ic (char_set a)) n rest of
        None \<Rightarrow> False
      | Some rest' \<Rightarrow> match_terms tab ic ts (i + n) rest')"

text \<open>
  \<^verbatim>\<open>RegExp.prototype.test\<close> on a string, for a regular expression without the
  \<^verbatim>\<open>g\<close> and \<^verbatim>\<open>y\<close> flags: a match is tried at every index from 0 to the
  length of the input.
\<close>

definition regexp_exec :: "case_table \<Rightarrow> regexp \<Rightarrow> jsstring \<Rightarrow> bool" where
  "regexp_exec tab re s =
     list_ex (\<lambda>i. match_terms tab (ignoreCase re) (pattern re) i (drop i s)) [0 ..< Suc (length s)]"

text \<open>
  \<^verbatim>\<open>test\<close> converts its argument to a string first. The callers only reach it with
  a string, behind their \<^verbatim>\<open>typeof\<close> guard and \<^verbatim>\<open>&&\<close>; the conversion
  of other values is not modelled, and their result here is never used.
\<close>

fun regexp_test :: "case_table \<Rightarrow> regexp \<Rightarrow> jsvalue \<Rightarrow> bool" where
  "regexp_test tab re (JStr s) = regexp_exec tab re s"
| "regexp_test tab re v = False"

definition cu :: "char \<Rightarrow> codeunit" where
  "cu c = of_char c"

text \<open>\<^verbatim>\<open>/^0x[a-fA-F0-9]{40}$/\<close>\<close>

definition address_regexp :: regexp where
  "address_regexp =
     \<lparr>pattern =
        [AssertStart,
         Atom (PatternChar (cu CHR ''0'')),
         Atom (PatternChar (cu CHR ''x'')),
         Repeat (CharClass [ClassRange (cu CHR ''a'') (cu CHR ''f''),
                            ClassRange (cu CHR ''A'') (cu CHR ''F''),
                            ClassRange (cu CHR ''0'') (cu CHR ''9'')]) 40,
         AssertEnd],
      ignoreCase = False\<rparr>"

text \<open>\<^verbatim>\<open>/^[0-9a-f]{8}-[0-9a-f]{4}-4[0-9a-f]{3}-[89ab][0-9a-f]{3}-[0-9a-f]{12}$/i\<close>\<close>

definition hex_class :: re_atom where
  "hex_class = CharClass [ClassRange (cu CHR ''0'') (cu CHR ''9''),
                          ClassRange (cu CHR ''a'') (cu CHR ''f'')]"

definition room_id_regexp :: regexp where
  "room_id_regexp =
     \<lparr>pattern =
        [AssertStart,
         Repeat hex_class 8,
         Atom (PatternChar (cu CHR ''-'')),
         Repeat hex_class 4,
         Atom (PatternChar (cu CHR ''-'')),
         Atom (PatternChar (cu CHR ''4'')),
         Repeat hex_class 3,
         Atom (PatternChar (cu CHR ''-'')),
         Atom (CharClass [ClassChar (cu CHR ''8''), ClassChar (cu CHR ''9''),
                          ClassChar (cu CHR ''a''), ClassChar (cu CHR ''b'')]),
         Repeat hex_class 3,
         Atom (PatternChar (cu CHR ''-'')),
         Repeat hex_class 12,
         AssertEnd],
      ignoreCase = True\<rparr>"

section \<open>The validators\<close>

text \<open>
  The six functions of \<^verbatim>\<open>validators.js\<close>, in the order of the source. A function
  that tests a regular expression takes the case table of the engine as its first
  argument.
\<close>

definition isValidEthereumAddress :: "case_table \<Rightarrow> jsvalue \<Rightarrow> bool" where
  "isValidEthereumAddress tab address =
     (typeof address = lit ''string'' \<and> regexp_test tab address_regexp address)"

definition isValidRoomId :: "case_table \<Rightarrow> jsvalue \<Rightarrow> bool" where
  "isValidRoomId tab roomId =
     (typeof roomId = lit ''string'' \<and> regexp_test tab room_id_regexp roomId)"

definition isValidDirection :: "jsvalue \<Rightarrow> bool" where
  "isValidDirection direction =
     (typeof direction = lit ''string''
      \<and> array_includes [JStr (lit ''UP''), JStr (lit ''DOWN''), JStr (lit ''LEFT''), JStr (lit ''RIGHT'')]
           direction)"

definition isValidBetAmount :: "jsvalue \<Rightarrow> bool" where
  "isValidBetAmount betAmount =
     (let validAmounts = [JNum num_0, JNum num_0_01, JNum num_0_1, JNum num_1, JNum num_2]
      in typeof betAmount = lit ''number'' \<and> array_includes validAmounts betAmount)"

text \<open>
  The returned object: \<open>success\<close> is always there, the other three properties are
  \<open>None\<close> when the object literal does not have them.
\<close>

record validation_result =
  success :: bool
  error :: "jsstring option"
  isCreating :: "bool option"
  isJoining :: "bool option"

definition failure :: "string \<Rightarrow> validation_result" where
  "failure msg = \<lparr>success = False, error = Some (lit msg), isCreating = None, isJoining = None\<rparr>"

text \<open>
  \<open>validateJoinRoomPayload\<close> takes the console and returns it with the result. Each
  property is read once here, where the source reads it first: the later reads of the same
  data property give the same value. \<open>None\<close> stands for a failed property read.
\<close>

definition validateJoinRoomPayload ::
    "case_table \<Rightarrow> jsvalue \<Rightarrow> console \<Rightarrow> (validation_result \<times> console) option" where
  "validateJoinRoomPayload tab payload con =
     (if \<not> ToBoolean payload \<or> typeof payload \<noteq> lit ''object'' then
        Some (failure ''Invalid payload format'', con)
      else do {
        eoa \<leftarrow> Get payload (lit ''eoa'');
        if \<not> ToBoolean eoa then
          Some (failure ''Ethereum address is required'', con)
        else if \<not> isValidEthereumAddress tab eoa then
          Some (failure ''Invalid Ethereum address format'', con)
        else do {
          betAmount \<leftarrow> Get payload (lit ''betAmount'');
          if betAmount \<noteq> JUndefined \<and> \<not> isValidBetAmount betAmount then
            Some (failure ''Invalid bet amount. Must be 0, 0.01, 0.1, 1, or 2'', con)
          else do {
            roomId \<leftarrow> Get payload (lit ''roomId'');
            if roomId = JUndefined then
              Some (\<lparr>success = True, error = None, isCreating = Some True, isJoining = None\<rparr>,
                    console_log [JStr (lit ''Creating new room with bet amount:''),
                                 logical_or betAmount (JNum num_0)] con)
            else if \<not> isValidRoomId tab roomId then
              Some (failure ''Invalid room ID format'', con)
            else
              Some (\<lparr>success = True, error = None, isCreating = None, isJoining = Some True\<rparr>,
                    console_log [JStr (lit ''Joining existing room:''), roomId,
                                 JStr (lit ''with bet amount:''),
                                 logical_or betAmount (JNum num_0)] con)
          }
        }
      })"

definition validateDirectionPayload :: "case_table \<Rightarrow> jsvalue \<Rightarrow> validation_result option" where
  "validateDirectionPayload tab payload =
     (if \<not> ToBoolean payload \<or> typeof payload \<noteq> lit ''object'' then
        Some (failure ''Invalid payload format'')
      else do {
        roomId \<leftarrow> Get payload (lit ''roomId'');
        if \<not> ToBoolean roomId then
          Some (failure ''Room ID is required'')
        else if \<not> isValidRoomId tab roomId then
          Some (failure ''Invalid room ID format'')
        else do {
          direction \<leftarrow> Get payload (lit ''direction'');
          if \<not> ToBoolean direction then
            Some (failure ''Direction is required'')
          else if \<not> isValidDirection direction then
            Some (failure ''Invalid direction format (must be UP, DOWN, LEFT, or RIGHT)'')
          else
            Some \<lparr>success = True, error = None, isCreating = None, isJoining = None\<rparr>
        }
      })"

section \<open>Calls of the exported functions\<close>

text \<open>
  The module exports the six functions and nothing else, and has no variable of its own:
  the regular expressions and the arrays are literals inside the functions, created anew
  by each call. What a call can see beside its argument is the engine (its case table) and
  the console. A call of an exported function takes both and returns the value of the
  function with the console after the call; \<open>None\<close> is a call that throws.
\<close>

datatype validator =
    IsValidEthereumAddress
  | IsValidRoomId
  | IsValidDirection
  | IsValidBetAmount
  | ValidateJoinRoomPayload
  | ValidateDirectionPayload

datatype return_value = Boolean bool | Result validation_result

fun call :: "case_table \<Rightarrow> validator \<Rightarrow> jsvalue \<Rightarrow> console \<Rightarrow> (return_value \<times> console) option" where
  "call tab IsValidEthereumAddress arg con = Some (Boolean (isValidEthereumAddress tab arg), con)"
| "call tab IsValidRoomId arg con = Some (Boolean (isValidRoomId tab arg), con)"
| "call tab IsValidDirection arg con = Some (Boolean (isValidDirection arg), con)"
| "call tab IsValidBetAmount arg con = Some (Boolean (isValidBetAmount arg), con)"
| "call tab ValidateJoinRoomPayload arg con =
     do {
       (res, con') \<leftarrow> validateJoinRoomPayload tab arg con;
       Some (Result res, con')
     }"
| "call tab ValidateDirectionPayload arg con =
     do {
       res \<leftarrow> validateDirectionPayload tab arg;
       Some (Result res, con)
     }"

section \<open>The specification's words\<close>

text \<open>
  The predicates and sets that the claims are stated with. They follow the specification,
  not the source, and the theorems below relate the two.
\<close>

text \<open>A hexadecimal character, in either case.\<close>

definition is_hex_digit :: "codeunit \<Rightarrow> bool" where
  "is_hex_digit c =
     ((cu CHR ''0'' \<le> c \<and> c \<le> cu CHR ''9'')
      \<or> (cu CHR ''a'' \<le> c \<and> c \<le> cu CHR ''f'')
      \<or> (cu CHR ''A'' \<le> c \<and> c \<le> cu CHR ''F''))"

text \<open>The variant nibble of a version 4 UUID: 8, 9, a or b, in either case.\<close>

definition is_variant_nibble :: "codeunit \<Rightarrow> bool" where
  "is_variant_nibble c =
     (c = cu CHR ''8'' \<or> c = cu CHR ''9'' \<or> c = cu CHR ''a'' \<or> c = cu CHR ''b''
      \<or> c = cu CHR ''A'' \<or> c = cu CHR ''B'')"

text \<open>The error strings of the two composite validators.\<close>

definition error_messages :: "jsstring set" where
  "error_messages =
     {lit ''Invalid payload format'',
      lit ''Ethereum address is required'',
      lit ''Invalid Ethereum address format'',
      lit ''Invalid bet amount. Must be 0, 0.01, 0.1, 1, or 2'',
      lit ''Invalid room ID format'',
      lit ''Room ID is required'',
      lit ''Direction is required'',
      lit ''Invalid direction format (must be UP, DOWN, LEFT, or RIGHT)''}"

text \<open>
  \<^verbatim>\<open>payload.name\<close> as the specification speaks of it: the value of the property,
  \<^verbatim>\<open>undefined\<close> when there is none.
\<close>

definition field :: "jsvalue \<Rightarrow> string \<Rightarrow> jsvalue" where
  "field payload name = (case Get payload (lit name) of Some v \<Rightarrow> v | None \<Rightarrow> JUndefined)"

text \<open>
  The shape \<^verbatim>\<open>{success, error?, isCreating?, isJoining?}\<close> of a validation result: an
  error exactly on failure and from the fixed set, no flag on failure, never both flags.
\<close>

definition well_formed_result :: "validation_result \<Rightarrow> bool" where
  "well_formed_result r =
     ((error r \<noteq> None) = (\<not> success r)
      \<and> (case error r of None \<Rightarrow> True | Some e \<Rightarrow> e \<in> error_messages)
      \<and> (success r \<or> (isCreating r = None \<and> isJoining r = None))
      \<and> (isCreating r = None \<or> isJoining r = None))"

section \<open>Sample inputs\<close>

text \<open>
  For the evaluations at concrete inputs: a case table that leaves every code unit from 128
  on as it is, a well-formed address and a well-formed room identifier.
\<close>

definition identity_table :: case_table where
  "identity_table ch = [ch]"

definition sample_address :: jsvalue where
  "sample_address = JStr (lit ''0xaaaaaaaaaaaaaaaaaaaaaaaaaaaaaaaaaaaaaaaa'')"

definition sample_room_id :: jsvalue where
  "sample_room_id = JStr (lit ''123e4567-e89b-42d3-a456-426614174000'')"

section \<open>String literals and \<^verbatim>\<open>typeof\<close>\<close>

lemma unat_of_char: "unat (of_char c :: 16 word) = of_char c"
proof -
  have "(of_char c :: 16 word) = of_nat (of_char c)" by (simp only: of_nat_of_char)
  moreover have "(of_char c :: nat) < 2 ^ 16"
    by (rule less_trans [OF nat_of_char_less_256]) simp
  ultimately show ?thesis by (simp add: unat_of_nat take_bit_nat_eq_self)
qed

lemma cu_eq_iff: "(of_char c :: 16 word) = of_char d \<longleftrightarrow> c = d"
proof
  assume "(of_char c :: 16 word) = of_char d"
  then have "unat (of_char c :: 16 word) = unat (of_char d :: 16 word)" by simp
  then show "c = d" by (simp add: unat_of_char)
qed simp

lemma lit_eq_iff [simp]: "lit s = lit t \<longleftrightarrow> s = t"
proof -
  have "inj (of_char :: char \<Rightarrow> codeunit)"
    by (rule injI) (simp only: cu_eq_iff)
  then show ?thesis
    unfolding lit_def by (rule inj_map_eq_map)
qed

lemma typeof_string: "typeof v = lit ''string'' \<longleftrightarrow> (\<exists>s. v = JStr s)"
  by (cases v) simp_all

lemma typeof_number: "typeof v = lit ''number'' \<longleftrightarrow> (\<exists>x. v = JNum x)"
  by (cases v) simp_all

lemma typeof_object: "typeof v = lit ''object'' \<longleftrightarrow> v = JNull \<or> (\<exists>r props. v = JObj r props)"
  by (cases v) simp_all

section \<open>The numeric literals\<close>

lemmas double_defs = double_value_def biased_exponent_def fraction_def sign_bit_def

lemma double_value_num_0: "double_value num_0 = 0"
  by (simp add: double_defs num_0_def)

lemma double_value_num_1: "double_value num_1 = 1"
  by (simp add: double_defs num_1_def)

lemma double_value_num_2: "double_value num_2 = 2"
  by (simp add: double_defs num_2_def)

lemma double_value_num_5: "double_value num_5 = 5"
  by (simp add: double_defs num_5_def)

lemma double_value_num_neg_0: "double_value num_neg_0 = 0"
  by (simp add: double_defs num_neg_0_def)

lemma double_value_num_0_1: "double_value num_0_1 = 7205759403792794 / 2 ^ 56"
  by (simp add: double_defs num_0_1_def)

lemma double_value_num_0_01: "double_value num_0_01 = 5764607523034235 / 2 ^ 59"
  by (simp add: double_defs num_0_01_def)

lemma double_value_num_0_15: "double_value num_0_15 = 5404319552844595 / 2 ^ 55"
  by (simp add: double_defs num_0_15_def)

text \<open>
  Each of \<open>0.1\<close>, \<open>0.01\<close> and \<open>0.15\<close> is a multiple of the spacing of the doubles
  around it and less than half a spacing away from the decimal.
\<close>

lemma num_0_1_nearest:
  "double_value num_0_1 - 1 / 10 < 1 / 2 ^ 57" "1 / 10 - double_value num_0_1 < 1 / 2 ^ 57"
  by (simp_all add: double_value_num_0_1)

lemma num_0_01_nearest:
  "double_value num_0_01 - 1 / 100 < 1 / 2 ^ 60" "1 / 100 - double_value num_0_01 < 1 / 2 ^ 60"
  by (simp_all add: double_value_num_0_01)

lemma num_0_15_nearest:
  "double_value num_0_15 - 15 / 100 < 1 / 2 ^ 56" "15 / 100 - double_value num_0_15 < 1 / 2 ^ 56"
  by (simp_all add: double_value_num_0_15)

lemma magnitude_literals [simp]:
  "magnitude num_0 = 0" "magnitude num_neg_0 = 0"
  "magnitude num_0_01 = 0x3F847AE147AE147B" "magnitude num_0_1 = 0x3FB999999999999A"
  "magnitude num_1 = 0x3FF0000000000000" "magnitude num_2 = 0x4000000000000000"
  "magnitude num_0_15 = 0x3FC3333333333333" "magnitude num_5 = 0x4014000000000000"
  "magnitude num_NaN = 0x7FF8000000000000"
  by (simp_all add: magnitude_def num_0_def num_neg_0_def num_0_01_def num_0_1_def num_1_def
      num_2_def num_0_15_def num_5_def num_NaN_def)

lemma is_nan_literals [simp]:
  "\<not> is_nan num_0" "\<not> is_nan num_neg_0" "\<not> is_nan num_0_01" "\<not> is_nan num_0_1"
  "\<not> is_nan num_1" "\<not> is_nan num_2" "\<not> is_nan num_0_15" "\<not> is_nan num_5" "is_nan num_NaN"
  by (simp_all add: is_nan_def)

lemma is_zero_literals [simp]:
  "is_zero num_0" "is_zero num_neg_0" "\<not> is_zero num_0_01" "\<not> is_zero num_0_1"
  "\<not> is_zero num_1" "\<not> is_zero num_2" "\<not> is_zero num_0_15" "\<not> is_zero num_5" "\<not> is_zero num_NaN"
  by (simp_all add: is_zero_def)

lemma literals_distinct [simp]:
  "num_0_15 \<noteq> num_0" "num_0_15 \<noteq> num_0_01" "num_0_15 \<noteq> num_0_1" "num_0_15 \<noteq> num_1"
  "num_0_15 \<noteq> num_2" "num_5 \<noteq> num_0" "num_5 \<noteq> num_0_01" "num_5 \<noteq> num_0_1" "num_5 \<noteq> num_1"
  "num_5 \<noteq> num_2" "num_0_1 \<noteq> num_0" "num_0_1 \<noteq> num_0_01" "num_0_1 \<noteq> num_1" "num_0_1 \<noteq> num_2"
  by (simp_all add: num_0_def num_0_01_def num_0_1_def num_1_def num_2_def num_0_15_def num_5_def)


lemma is_zero_iff: "is_zero x \<longleftrightarrow> x = num_0 \<or> x = num_neg_0"
proof -
  have m: "(0x7FFFFFFFFFFFFFFF :: 64 word) = mask 63"
    by (simp add: mask_eq_exp_minus_1)
  have "is_zero x \<longleftrightarrow> take_bit 63 x = 0"
    by (simp only: is_zero_def magnitude_def m take_bit_eq_mask)
  also have "\<dots> \<longleftrightarrow> x = 0 \<or> x = 2 ^ 63"
  proof
    assume t: "take_bit 63 x = 0"
    have "push_bit 63 (drop_bit 63 x) + take_bit 63 x = x"
      by (rule bits_ident)
    then have x: "x = push_bit 63 (drop_bit 63 x)"
      using t by simp
    have "unat x < 2 ^ 64"
      using unsigned_less [of x] by simp
    moreover have "unat (drop_bit 63 x) = unat x div 2 ^ 63"
      by (simp add: drop_bit_eq_div unat_div)
    ultimately have "unat (drop_bit 63 x) < 2"
      by (simp add: less_mult_imp_div_less)
    then have "unat (drop_bit 63 x) = 0 \<or> unat (drop_bit 63 x) = 1"
      by arith
    then have "drop_bit 63 x = 0 \<or> drop_bit 63 x = 1"
      by (simp add: word_unat_eq_iff)
    then show "x = 0 \<or> x = 2 ^ 63"
      using x by (metis push_bit_of_0 push_bit_of_1)
  next
    assume "x = 0 \<or> x = 2 ^ 63"
    then show "take_bit 63 x = 0"
      by auto
  qed
  finally show ?thesis
    by (simp add: num_0_def num_neg_0_def)
qed

section \<open>\<open>isValidBetAmount\<close> and \<open>isValidDirection\<close>\<close>

lemma is_zero_not_nan: "is_zero x \<Longrightarrow> \<not> is_nan x"
  by (simp add: is_zero_def is_nan_def)

lemma Number_sameValueZero_not_nan:
  "\<not> is_nan c \<Longrightarrow> Number_sameValueZero x c = Number_equal x c"
  by (auto simp add: Number_sameValueZero_def Number_equal_def is_zero_not_nan)

lemma isValidBetAmount_JNum:
  "isValidBetAmount (JNum x) \<longleftrightarrow>
     Number_equal x num_0 \<or> Number_equal x num_0_01 \<or> Number_equal x num_0_1
     \<or> Number_equal x num_1 \<or> Number_equal x num_2"
  by (simp add: isValidBetAmount_def Number_sameValueZero_not_nan)

lemma isValidBetAmount_typeof: "isValidBetAmount v \<Longrightarrow> typeof v = lit ''number''"
  by (simp add: isValidBetAmount_def)

lemma Number_equal_literal:
  "\<not> is_nan c \<Longrightarrow> \<not> is_zero c \<Longrightarrow> Number_equal x c \<longleftrightarrow> x = c"
  by (auto simp add: Number_equal_def)

lemma Number_equal_num_0: "Number_equal x num_0 \<longleftrightarrow> x = num_0 \<or> x = num_neg_0"
  by (auto simp add: Number_equal_def is_zero_iff)

text \<open>
  C5: for every value, \<open>isValidBetAmount\<close> is true exactly when the value's
  \<^verbatim>\<open>typeof\<close> is \<^verbatim>\<open>number\<close> and the Number equals one of \<open>0\<close>,
  \<open>0.01\<close>, \<open>0.1\<close>, \<open>1\<close>, \<open>2\<close> under IEEE 754 equality (\<open>Number_equal\<close>, no
  tolerance). \<open>0.1\<close> is accepted, \<open>0.15\<close> and the string \<^verbatim>\<open>"1"\<close> are rejected.
\<close>

theorem isValidBetAmount_iff:
  "(isValidBetAmount v \<longleftrightarrow>
      typeof v = lit ''number''
      \<and> (\<exists>x. v = JNum x
             \<and> (Number_equal x num_0 \<or> Number_equal x num_0_01 \<or> Number_equal x num_0_1
                  \<or> Number_equal x num_1 \<or> Number_equal x num_2)))
   \<and> isValidBetAmount (JNum num_0_1)
   \<and> \<not> isValidBetAmount (JNum num_0_15)
   \<and> \<not> isValidBetAmount (JStr (lit ''1''))"
proof -
  have "isValidBetAmount v \<longleftrightarrow>
      typeof v = lit ''number''
      \<and> (\<exists>x. v = JNum x
             \<and> (Number_equal x num_0 \<or> Number_equal x num_0_01 \<or> Number_equal x num_0_1
                  \<or> Number_equal x num_1 \<or> Number_equal x num_2))"
  proof (cases "typeof v = lit ''number''")
    case True
    then obtain x where "v = JNum x"
      by (auto simp add: typeof_number)
    then show ?thesis
      by (simp add: isValidBetAmount_JNum)
  next
    case False
    then show ?thesis
      using isValidBetAmount_typeof [of v] by blast
  qed
  moreover have "isValidBetAmount (JNum num_0_1)"
    by (simp add: isValidBetAmount_JNum Number_equal_def)
  moreover have "\<not> isValidBetAmount (JNum num_0_15)"
    by (simp add: isValidBetAmount_JNum Number_equal_def)
  moreover have "\<not> isValidBetAmount (JStr (lit ''1''))"
    by (simp add: isValidBetAmount_def)
  ultimately show ?thesis
    by blast
qed

text \<open>
  C10: the Numbers that \<open>isValidBetAmount\<close> accepts are exactly \<open>0\<close>, \<open>-0\<close>,
  \<open>0.01\<close>, \<open>0.1\<close>, \<open>1\<close> and \<open>2\<close>. Every NaN is rejected, and \<open>-0\<close> is
  accepted.
\<close>

theorem isValidBetAmount_accepted_set:
  "(isValidBetAmount (JNum x) \<longleftrightarrow>
      x \<in> {num_0, num_neg_0, num_0_01, num_0_1, num_1, num_2})
   \<and> (is_nan x \<longrightarrow> \<not> isValidBetAmount (JNum x))
   \<and> isValidBetAmount (JNum num_neg_0)
   \<and> \<not> isValidBetAmount (JNum num_NaN)"
proof -
  have set: "isValidBetAmount (JNum y) \<longleftrightarrow>
      y \<in> {num_0, num_neg_0, num_0_01, num_0_1, num_1, num_2}" for y
    by (auto simp add: isValidBetAmount_JNum Number_equal_literal Number_equal_num_0)
  have nan: "\<not> isValidBetAmount (JNum y)" if "is_nan y" for y
    using that by (simp add: isValidBetAmount_JNum Number_equal_def)
  have "isValidBetAmount (JNum num_neg_0)"
    by (simp add: set)
  moreover have "\<not> isValidBetAmount (JNum num_NaN)"
    by (simp add: nan)
  ultimately show ?thesis
    using set [of x] nan [of x] by blast
qed

theorem isValidBetAmount_accepted_set_witness:
  "is_nan num_NaN \<and> \<not> isValidBetAmount (JNum num_NaN) \<and> isValidBetAmount (JNum num_neg_0)"
proof -
  have "is_nan num_NaN"
    by (simp add: is_nan_def magnitude_def num_NaN_def)
  then show ?thesis
    using isValidBetAmount_accepted_set [of num_NaN] by blast
qed

text \<open>
  C6: for every value, \<open>isValidDirection\<close> is true exactly when the value is a string
  and is one of \<^verbatim>\<open>"UP"\<close>, \<^verbatim>\<open>"DOWN"\<close>, \<^verbatim>\<open>"LEFT"\<close>,
  \<^verbatim>\<open>"RIGHT"\<close>, code unit for code unit. \<^verbatim>\<open>"UP"\<close> is accepted,
  \<^verbatim>\<open>"up"\<close> and the empty string are rejected.
\<close>

theorem isValidDirection_iff:
  "(isValidDirection v \<longleftrightarrow>
      typeof v = lit ''string''
      \<and> (\<exists>s. v = JStr s \<and> s \<in> {lit ''UP'', lit ''DOWN'', lit ''LEFT'', lit ''RIGHT''}))
   \<and> isValidDirection (JStr (lit ''UP''))
   \<and> \<not> isValidDirection (JStr (lit ''up''))
   \<and> \<not> isValidDirection (JStr [])"
proof -
  have "isValidDirection v \<longleftrightarrow>
      typeof v = lit ''string''
      \<and> (\<exists>s. v = JStr s \<and> s \<in> {lit ''UP'', lit ''DOWN'', lit ''LEFT'', lit ''RIGHT''})"
    by (cases v) (auto simp add: isValidDirection_def)
  moreover have "isValidDirection (JStr (lit ''UP''))"
    by (simp add: isValidDirection_def)
  moreover have "\<not> isValidDirection (JStr (lit ''up''))"
    by (simp add: isValidDirection_def)
  moreover have "\<not> isValidDirection (JStr [])"
    by (simp add: isValidDirection_def lit_def)
  ultimately show ?thesis
    by blast
qed

section \<open>The two regular expressions\<close>

lemma match_repeat_eq:
  "match_repeat P n s = (if n \<le> length s \<and> list_all P (take n s) then Some (drop n s) else None)"
proof (induction n arbitrary: s)
  case 0
  show ?case by simp
next
  case (Suc n)
  show ?case
    by (cases s) (simp_all add: Suc.IH)
qed

lemma set_class_range:
  "set (class_chars (ClassRange lo hi)) = {c. lo \<le> c \<and> c \<le> hi}"
proof (rule set_eqI)
  fix c :: codeunit
  show "c \<in> set (class_chars (ClassRange lo hi)) \<longleftrightarrow> c \<in> {c. lo \<le> c \<and> c \<le> hi}"
  proof
    assume "c \<in> set (class_chars (ClassRange lo hi))"
    then obtain n where n: "unat lo \<le> n" "n \<le> unat hi" "c = of_nat n"
      by auto
    have "n < 2 ^ 16"
      using n(2) unsigned_less [of hi, where ?'a = nat] by simp
    then have "unat c = n"
      by (simp add: n(3) unat_of_nat take_bit_nat_eq_self)
    then show "c \<in> {c. lo \<le> c \<and> c \<le> hi}"
      using n by (simp add: word_le_nat_alt)
  next
    assume "c \<in> {c. lo \<le> c \<and> c \<le> hi}"
    then have "unat lo \<le> unat c" "unat c \<le> unat hi"
      by (simp_all add: word_le_nat_alt)
    then have "unat c \<in> set [unat lo ..< Suc (unat hi)]"
      by (simp only: set_upt atLeastLessThan_iff less_Suc_eq_le simp_thms)
    then have "(of_nat (unat c) :: codeunit) \<in> of_nat ` set [unat lo ..< Suc (unat hi)]"
      by (rule imageI)
    then show "c \<in> set (class_chars (ClassRange lo hi))"
      by simp
  qed
qed

lemma Canonicalize_off [simp]: "Canonicalize tab False ch = ch"
  by (simp add: Canonicalize_def)

lemma Canonicalize_ascii: "ch < 128 \<Longrightarrow> Canonicalize tab True ch = ascii_upper ch"
proof -
  assume "ch < 128"
  then have "\<not> 128 \<le> ch"
    by (simp add: not_le)
  with \<open>ch < 128\<close> show ?thesis
    by (simp add: Canonicalize_def toUppercase_def)
qed

lemma ascii_upper_less: "ch < 128 \<Longrightarrow> ascii_upper ch < 128"
  unfolding ascii_upper_def by unat_arith

lemma Canonicalize_not_ascii: "128 \<le> ch \<Longrightarrow> 128 \<le> Canonicalize tab True ch"
  by (auto simp add: Canonicalize_def toUppercase_def split: list.splits)

lemma CharacterSetMatcher_cs: "CharacterSetMatcher tab False A ch \<longleftrightarrow> ch \<in> set A"
  by (auto simp add: CharacterSetMatcher_def list_ex_iff)

lemma CharacterSetMatcher_ci:
  "CharacterSetMatcher tab True A ch \<longleftrightarrow>
     Canonicalize tab True ch \<in> Canonicalize tab True ` set A"
  by (simp add: CharacterSetMatcher_def list_ex_iff image_iff eq_commute)

lemma cu_numeral [simp]:
  "cu CHR ''0'' = 0x30" "cu CHR ''9'' = 0x39" "cu CHR ''a'' = 0x61" "cu CHR ''f'' = 0x66"
  "cu CHR ''A'' = 0x41" "cu CHR ''F'' = 0x46" "cu CHR ''x'' = 0x78" "cu CHR ''-'' = 0x2D"
  "cu CHR ''4'' = 0x34" "cu CHR ''8'' = 0x38" "cu CHR ''b'' = 0x62" "cu CHR ''B'' = 0x42"
  "cu CHR ''1'' = 0x31"
  by (simp_all add: cu_def)


lemma CharacterSetMatcher_ci_ascii:
  assumes "\<forall>a\<in>set A. a < 128"
  shows "CharacterSetMatcher tab True A ch \<longleftrightarrow>
           ch < 128 \<and> (\<exists>a\<in>set A. ascii_upper ch = ascii_upper a)"
proof (cases "ch < 128")
  case True
  then show ?thesis
    using assms by (auto simp add: CharacterSetMatcher_ci Canonicalize_ascii image_iff)
next
  case False
  then have "128 \<le> Canonicalize tab True ch"
    by (simp add: Canonicalize_not_ascii not_less)
  moreover have "Canonicalize tab True a < 128" if "a \<in> set A" for a
    using that assms by (simp add: Canonicalize_ascii ascii_upper_less)
  ultimately have "\<not> CharacterSetMatcher tab True A ch"
    by (auto simp add: CharacterSetMatcher_ci image_iff not_less [symmetric])
  with False show ?thesis
    by simp
qed

lemma ascii_upper_hex:
  "(\<exists>a. ((0x30 \<le> a \<and> a \<le> 0x39) \<or> (0x61 \<le> a \<and> a \<le> 0x66)) \<and> ascii_upper ch = ascii_upper a)
     \<longleftrightarrow> is_hex_digit ch"
proof
  assume "\<exists>a. ((0x30 \<le> a \<and> a \<le> 0x39) \<or> (0x61 \<le> a \<and> a \<le> 0x66)) \<and> ascii_upper ch = ascii_upper a"
  then obtain a where "(0x30 \<le> a \<and> a \<le> 0x39) \<or> (0x61 \<le> a \<and> a \<le> 0x66)"
      "ascii_upper ch = ascii_upper a"
    by blast
  then show "is_hex_digit ch"
    unfolding is_hex_digit_def ascii_upper_def cu_numeral
    by unat_arith
next
  assume "is_hex_digit ch"
  then consider "0x30 \<le> ch \<and> ch \<le> 0x39" | "0x61 \<le> ch \<and> ch \<le> 0x66" | "0x41 \<le> ch \<and> ch \<le> 0x46"
    unfolding is_hex_digit_def cu_numeral by blast
  then show "\<exists>a. ((0x30 \<le> a \<and> a \<le> 0x39) \<or> (0x61 \<le> a \<and> a \<le> 0x66)) \<and> ascii_upper ch = ascii_upper a"
  proof cases
    case 1
    then show ?thesis by blast
  next
    case 2
    then show ?thesis by blast
  next
    case 3
    then have "ch = 0x41 \<or> ch = 0x42 \<or> ch = 0x43 \<or> ch = 0x44 \<or> ch = 0x45 \<or> ch = 0x46"
      by unat_arith
    then have "((0x30 \<le> ch + 0x20 \<and> ch + 0x20 \<le> 0x39) \<or> (0x61 \<le> ch + 0x20 \<and> ch + 0x20 \<le> 0x66))
        \<and> ascii_upper ch = ascii_upper (ch + 0x20)"
      by (elim disjE) (simp_all add: ascii_upper_def)
    then show ?thesis by blast
  qed
qed

lemma is_hex_digit_ascii: "is_hex_digit ch \<Longrightarrow> ch < 128"
  unfolding is_hex_digit_def cu_numeral by unat_arith

lemma is_variant_nibble_ascii: "is_variant_nibble ch \<Longrightarrow> ch < 128"
  unfolding is_variant_nibble_def cu_numeral by unat_arith

lemma ascii_upper_fixed:
  "ascii_upper ch = 0x2D \<longleftrightarrow> ch = 0x2D" "ascii_upper ch = 0x34 \<longleftrightarrow> ch = 0x34"
  unfolding ascii_upper_def by unat_arith+

lemma ascii_upper_variant:
  "(ascii_upper ch = ascii_upper 0x38 \<or> ascii_upper ch = ascii_upper 0x39
    \<or> ascii_upper ch = ascii_upper 0x61 \<or> ascii_upper ch = ascii_upper 0x62)
     \<longleftrightarrow> is_variant_nibble ch"
  unfolding is_variant_nibble_def ascii_upper_def cu_numeral by unat_arith

lemma hex_class_ci:
  "CharacterSetMatcher tab True (char_set hex_class) ch \<longleftrightarrow> is_hex_digit ch"
proof -
  have A: "set (char_set hex_class) = {a. (0x30 \<le> a \<and> a \<le> 0x39) \<or> (0x61 \<le> a \<and> a \<le> 0x66)}"
    by (auto simp add: hex_class_def set_class_range simp del: class_chars.simps)
  have "\<forall>a\<in>set (char_set hex_class). a < 128"
    unfolding A by (auto; unat_arith)
  then have "CharacterSetMatcher tab True (char_set hex_class) ch \<longleftrightarrow>
      ch < 128 \<and> (\<exists>a\<in>set (char_set hex_class). ascii_upper ch = ascii_upper a)"
    by (rule CharacterSetMatcher_ci_ascii)
  also have "\<dots> \<longleftrightarrow> ch < 128 \<and> is_hex_digit ch"
    unfolding A ascii_upper_hex [symmetric] by blast
  also have "\<dots> \<longleftrightarrow> is_hex_digit ch"
    using is_hex_digit_ascii by blast
  finally show ?thesis .
qed

lemma address_class_cs:
  "CharacterSetMatcher tab False
     (char_set (CharClass [ClassRange (cu CHR ''a'') (cu CHR ''f''),
                           ClassRange (cu CHR ''A'') (cu CHR ''F''),
                           ClassRange (cu CHR ''0'') (cu CHR ''9'')])) ch \<longleftrightarrow> is_hex_digit ch"
  by (auto simp add: CharacterSetMatcher_cs set_class_range is_hex_digit_def
      simp del: class_chars.simps)

lemma pattern_char_cs:
  "CharacterSetMatcher tab False (char_set (PatternChar a)) ch \<longleftrightarrow> ch = a"
  by (auto simp add: CharacterSetMatcher_cs)

lemma pattern_char_ci:
  "CharacterSetMatcher tab True (char_set (PatternChar (cu CHR ''-''))) ch \<longleftrightarrow> ch = cu CHR ''-''"
  "CharacterSetMatcher tab True (char_set (PatternChar (cu CHR ''4''))) ch \<longleftrightarrow> ch = cu CHR ''4''"
proof -
  have "CharacterSetMatcher tab True [0x2D] ch \<longleftrightarrow> ch < 128 \<and> ascii_upper ch = 0x2D"
    by (subst CharacterSetMatcher_ci_ascii) (simp_all add: ascii_upper_def)
  also have "\<dots> \<longleftrightarrow> ch = 0x2D"
    by (auto simp add: ascii_upper_fixed)
  finally show "CharacterSetMatcher tab True (char_set (PatternChar (cu CHR ''-''))) ch \<longleftrightarrow> ch = cu CHR ''-''"
    by simp
  have "CharacterSetMatcher tab True [0x34] ch \<longleftrightarrow> ch < 128 \<and> ascii_upper ch = 0x34"
    by (subst CharacterSetMatcher_ci_ascii) (simp_all add: ascii_upper_def)
  also have "\<dots> \<longleftrightarrow> ch = 0x34"
    by (auto simp add: ascii_upper_fixed)
  finally show "CharacterSetMatcher tab True (char_set (PatternChar (cu CHR ''4''))) ch \<longleftrightarrow> ch = cu CHR ''4''"
    by simp
qed

lemma variant_class_ci:
  "CharacterSetMatcher tab True
     (char_set (CharClass [ClassChar (cu CHR ''8''), ClassChar (cu CHR ''9''),
                           ClassChar (cu CHR ''a''), ClassChar (cu CHR ''b'')])) ch
     \<longleftrightarrow> is_variant_nibble ch"
proof -
  have "CharacterSetMatcher tab True [0x38, 0x39, 0x61, 0x62] ch \<longleftrightarrow>
      ch < 128 \<and> (\<exists>a\<in>set [0x38, 0x39, 0x61, 0x62]. ascii_upper ch = ascii_upper a)"
    by (rule CharacterSetMatcher_ci_ascii) simp
  also have "\<dots> \<longleftrightarrow> ch < 128 \<and> is_variant_nibble ch"
    by (simp add: ascii_upper_variant [symmetric])
  also have "\<dots> \<longleftrightarrow> is_variant_nibble ch"
    using is_variant_nibble_ascii by blast
  finally show ?thesis
    by simp
qed

lemma match_Atom:
  "match_terms tab ic (Atom a # ts) i rest \<longleftrightarrow>
     (\<exists>c cs. rest = c # cs \<and> CharacterSetMatcher tab ic (char_set a) c
             \<and> match_terms tab ic ts (Suc i) cs)"
  by (cases rest) simp_all

lemma match_Repeat:
  "match_terms tab ic (Repeat a n # ts) i rest \<longleftrightarrow>
     (\<exists>pre suf. rest = pre @ suf \<and> length pre = n
                \<and> list_all (CharacterSetMatcher tab ic (char_set a)) pre
                \<and> match_terms tab ic ts (i + n) suf)"
proof
  assume "match_terms tab ic (Repeat a n # ts) i rest"
  then have "n \<le> length rest"
      "list_all (CharacterSetMatcher tab ic (char_set a)) (take n rest)"
      "match_terms tab ic ts (i + n) (drop n rest)"
    by (simp_all add: match_repeat_eq split: if_splits)
  then have "rest = take n rest @ drop n rest \<and> length (take n rest) = n
      \<and> list_all (CharacterSetMatcher tab ic (char_set a)) (take n rest)
      \<and> match_terms tab ic ts (i + n) (drop n rest)"
    by simp
  then show "\<exists>pre suf. rest = pre @ suf \<and> length pre = n
      \<and> list_all (CharacterSetMatcher tab ic (char_set a)) pre
      \<and> match_terms tab ic ts (i + n) suf"
    by blast
next
  assume "\<exists>pre suf. rest = pre @ suf \<and> length pre = n
      \<and> list_all (CharacterSetMatcher tab ic (char_set a)) pre
      \<and> match_terms tab ic ts (i + n) suf"
  then show "match_terms tab ic (Repeat a n # ts) i rest"
    by (auto simp add: match_repeat_eq)
qed

lemma match_End: "match_terms tab ic [AssertEnd] i rest \<longleftrightarrow> rest = []"
  by simp

lemma regexp_exec_anchored:
  "regexp_exec tab \<lparr>pattern = AssertStart # ts, ignoreCase = ic\<rparr> s = match_terms tab ic ts 0 s"
  by (auto simp add: regexp_exec_def list_ex_iff)

lemma address_regexp_iff:
  "regexp_exec tab address_regexp s \<longleftrightarrow>
     (\<exists>hs. s = lit ''0x'' @ hs \<and> length hs = 40 \<and> list_all is_hex_digit hs)"
proof -
  have "regexp_exec tab address_regexp s \<longleftrightarrow>
      (\<exists>hs. s = cu CHR ''0'' # cu CHR ''x'' # hs \<and> length hs = 40 \<and> list_all is_hex_digit hs)"
    unfolding address_regexp_def regexp_exec_anchored match_Atom match_Repeat match_End
      pattern_char_cs address_class_cs
    by auto
  moreover have "lit ''0x'' = [cu CHR ''0'', cu CHR ''x'']"
    by (simp add: lit_def cu_def)
  ultimately show ?thesis
    by simp
qed

lemma is_variant_nibble_hex: "is_variant_nibble c \<Longrightarrow> is_hex_digit c"
  unfolding is_variant_nibble_def is_hex_digit_def cu_numeral by unat_arith

lemma is_hex_digit_4: "is_hex_digit (cu CHR ''4'')"
  by (simp add: is_hex_digit_def)

lemma room_id_regexp_unfolded:
  "regexp_exec tab room_id_regexp s \<longleftrightarrow>
     (\<exists>p1 p2 p3 v p4 p5.
        s = p1 @ cu CHR ''-'' # p2 @ cu CHR ''-'' # cu CHR ''4'' # p3 @ cu CHR ''-'' # v # p4
              @ cu CHR ''-'' # p5
        \<and> length p1 = 8 \<and> length p2 = 4 \<and> length p3 = 3 \<and> length p4 = 3 \<and> length p5 = 12
        \<and> list_all is_hex_digit p1 \<and> list_all is_hex_digit p2 \<and> list_all is_hex_digit p3
        \<and> list_all is_hex_digit p4 \<and> list_all is_hex_digit p5 \<and> is_variant_nibble v)"
  unfolding room_id_regexp_def regexp_exec_anchored match_Atom match_Repeat match_End
    pattern_char_ci hex_class_ci variant_class_ci
  apply (rule iffI)
   apply (elim exE conjE, hypsubst, simp only: append_Nil2, (intro exI conjI; (rule refl | assumption)))
  apply (elim exE conjE)
  apply hypsubst
  apply (intro exI conjI)
  apply (rule refl | assumption | rule append_Nil2 [symmetric])+
  done

lemma room_id_regexp_iff:
  "regexp_exec tab room_id_regexp s \<longleftrightarrow>
     (\<exists>g1 g2 g3 g4 g5.
        s = g1 @ cu CHR ''-'' # g2 @ cu CHR ''-'' # g3 @ cu CHR ''-'' # g4 @ cu CHR ''-'' # g5
        \<and> length g1 = 8 \<and> length g2 = 4 \<and> length g3 = 4 \<and> length g4 = 4 \<and> length g5 = 12
        \<and> list_all is_hex_digit (g1 @ g2 @ g3 @ g4 @ g5)
        \<and> hd g3 = cu CHR ''4'' \<and> is_variant_nibble (hd g4))"
  (is "?L \<longleftrightarrow> ?R")
proof
  assume ?L
  then obtain p1 p2 p3 v p4 p5 where p:
    "s = p1 @ cu CHR ''-'' # p2 @ cu CHR ''-'' # cu CHR ''4'' # p3 @ cu CHR ''-'' # v # p4
           @ cu CHR ''-'' # p5"
    "length p1 = 8" "length p2 = 4" "length p3 = 3" "length p4 = 3" "length p5 = 12"
    "list_all is_hex_digit p1" "list_all is_hex_digit p2" "list_all is_hex_digit p3"
    "list_all is_hex_digit p4" "list_all is_hex_digit p5" "is_variant_nibble v"
    unfolding room_id_regexp_unfolded by blast
  have "s = p1 @ cu CHR ''-'' # p2 @ cu CHR ''-'' # (cu CHR ''4'' # p3) @ cu CHR ''-'' # (v # p4)
           @ cu CHR ''-'' # p5
      \<and> length p1 = 8 \<and> length p2 = 4 \<and> length (cu CHR ''4'' # p3) = 4 \<and> length (v # p4) = 4
      \<and> length p5 = 12
      \<and> list_all is_hex_digit (p1 @ p2 @ (cu CHR ''4'' # p3) @ (v # p4) @ p5)
      \<and> hd (cu CHR ''4'' # p3) = cu CHR ''4'' \<and> is_variant_nibble (hd (v # p4))"
    using p by (simp add: is_hex_digit_4 is_variant_nibble_hex del: cu_numeral)
  then show ?R
    by blast
next
  assume ?R
  then obtain g1 g2 g3 g4 g5 where g:
    "s = g1 @ cu CHR ''-'' # g2 @ cu CHR ''-'' # g3 @ cu CHR ''-'' # g4 @ cu CHR ''-'' # g5"
    "length g1 = 8" "length g2 = 4" "length g3 = 4" "length g4 = 4" "length g5 = 12"
    "list_all is_hex_digit (g1 @ g2 @ g3 @ g4 @ g5)"
    "hd g3 = cu CHR ''4''" "is_variant_nibble (hd g4)"
    by blast
  from g(4) obtain a3 p3 where g3: "g3 = a3 # p3" "length p3 = 3"
    by (cases g3) simp_all
  from g(5) obtain a4 p4 where g4: "g4 = a4 # p4" "length p4 = 3"
    by (cases g4) simp_all
  have "s = g1 @ cu CHR ''-'' # g2 @ cu CHR ''-'' # cu CHR ''4'' # p3 @ cu CHR ''-'' # a4 # p4
           @ cu CHR ''-'' # g5
      \<and> length g1 = 8 \<and> length g2 = 4 \<and> length p3 = 3 \<and> length p4 = 3 \<and> length g5 = 12
      \<and> list_all is_hex_digit g1 \<and> list_all is_hex_digit g2 \<and> list_all is_hex_digit p3
      \<and> list_all is_hex_digit p4 \<and> list_all is_hex_digit g5 \<and> is_variant_nibble a4"
    using g g3(2) g4(2) unfolding g3(1) g4(1) by (simp del: cu_numeral)
  then show ?L
    unfolding room_id_regexp_unfolded by blast
qed

lemma regexp_test_string: "typeof v = lit ''string'' \<and> regexp_test tab re v \<longleftrightarrow> (\<exists>s. v = JStr s \<and> regexp_exec tab re s)"
  by (cases v) simp_all

text \<open>
  C3: for every value, \<open>isValidEthereumAddress\<close> is true exactly when the value is a
  string that matches \<^verbatim>\<open>/^0x[a-fA-F0-9]{40}$/\<close>, that is, when it is \<^verbatim>\<open>0x\<close>
  followed by exactly 40 hexadecimal characters of either case; every other value gives
  false. The function is a total boolean function of its argument (and does not depend on
  the case table). Examples: \<^verbatim>\<open>"0x" + "a".repeat(40)\<close> is accepted,
  \<^verbatim>\<open>"0xabc"\<close> and the number 1 are rejected.
\<close>

theorem isValidEthereumAddress_iff:
  "(isValidEthereumAddress tab v \<longleftrightarrow>
      typeof v = lit ''string'' \<and> (\<exists>s. v = JStr s \<and> regexp_exec tab address_regexp s))
   \<and> (isValidEthereumAddress tab v \<longleftrightarrow>
      (\<exists>hs. v = JStr (lit ''0x'' @ hs) \<and> length hs = 40 \<and> list_all is_hex_digit hs))
   \<and> isValidEthereumAddress tab (JStr (lit ''0x'' @ replicate 40 (cu CHR ''a'')))
   \<and> \<not> isValidEthereumAddress tab (JStr (lit ''0xabc''))
   \<and> \<not> isValidEthereumAddress tab (JNum num_1)"
proof -
  have 1: "isValidEthereumAddress tab w \<longleftrightarrow>
      typeof w = lit ''string'' \<and> (\<exists>s. w = JStr s \<and> regexp_exec tab address_regexp s)" for w
    by (cases w) (simp_all add: isValidEthereumAddress_def)
  have 2: "isValidEthereumAddress tab w \<longleftrightarrow>
      (\<exists>hs. w = JStr (lit ''0x'' @ hs) \<and> length hs = 40 \<and> list_all is_hex_digit hs)" for w
    unfolding isValidEthereumAddress_def regexp_test_string address_regexp_iff by blast
  have "list_all is_hex_digit (replicate 40 (cu CHR ''a''))"
    by (simp add: list_all_iff is_hex_digit_def)
  then have 3: "isValidEthereumAddress tab (JStr (lit ''0x'' @ replicate 40 (cu CHR ''a'')))"
    unfolding 2 by simp
  have 4: "\<not> isValidEthereumAddress tab (JStr (lit ''0xabc''))"
  proof
    assume "isValidEthereumAddress tab (JStr (lit ''0xabc''))"
    then obtain hs where "lit ''0xabc'' = lit ''0x'' @ hs" "length hs = 40"
      unfolding 2 by blast
    then have "length (lit ''0xabc'') = length (lit ''0x'') + 40"
      by simp
    then show False
      by (simp add: lit_def)
  qed
  have 5: "\<not> isValidEthereumAddress tab (JNum num_1)"
    by (simp add: 1)
  from 1 [of v] 2 [of v] 3 4 5 show ?thesis
    by blast
qed

lemma CharacterSetMatcher_ci_numeral:
  "CharacterSetMatcher tab True [0x2D] ch \<longleftrightarrow> ch = 0x2D"
  "CharacterSetMatcher tab True [0x34] ch \<longleftrightarrow> ch = 0x34"
  "CharacterSetMatcher tab True [0x38, 0x39, 0x61, 0x62] ch \<longleftrightarrow> is_variant_nibble ch"
  using pattern_char_ci [of tab ch] variant_class_ci [of tab ch] by simp_all

lemma room_id_example_1:
  "regexp_exec tab room_id_regexp (lit ''123e4567-e89b-42d3-a456-426614174000'')"
  by (simp add: room_id_regexp_def regexp_exec_anchored match_repeat_eq hex_class_ci
      CharacterSetMatcher_ci_numeral lit_def is_hex_digit_def is_variant_nibble_def)

lemma room_id_example_2:
  "\<not> regexp_exec tab room_id_regexp (lit ''123e4567-e89b-12d3-a456-426614174000'')"
  by (simp add: room_id_regexp_def regexp_exec_anchored match_repeat_eq hex_class_ci
      CharacterSetMatcher_ci_numeral lit_def is_hex_digit_def is_variant_nibble_def)

text \<open>
  C4: for every value, \<open>isValidRoomId\<close> is true exactly when the value is a string of
  five groups of hexadecimal characters of either case, of lengths 8, 4, 4, 4 and 12,
  separated by hyphens, where the third group starts with \<^verbatim>\<open>4\<close> and the fourth
  with one of 8, 9, a, b (either case); every non-string gives false.
  \<^verbatim>\<open>"123e4567-e89b-42d3-a456-426614174000"\<close> is accepted, and the same string with
  the version nibble \<^verbatim>\<open>1\<close> is rejected.
\<close>

theorem isValidRoomId_iff:
  "(isValidRoomId tab v \<longleftrightarrow>
      typeof v = lit ''string''
      \<and> (\<exists>g1 g2 g3 g4 g5.
            v = JStr (g1 @ cu CHR ''-'' # g2 @ cu CHR ''-'' # g3 @ cu CHR ''-'' # g4
                       @ cu CHR ''-'' # g5)
            \<and> length g1 = 8 \<and> length g2 = 4 \<and> length g3 = 4 \<and> length g4 = 4 \<and> length g5 = 12
            \<and> list_all is_hex_digit (g1 @ g2 @ g3 @ g4 @ g5)
            \<and> hd g3 = cu CHR ''4'' \<and> is_variant_nibble (hd g4)))
   \<and> isValidRoomId tab (JStr (lit ''123e4567-e89b-42d3-a456-426614174000''))
   \<and> \<not> isValidRoomId tab (JStr (lit ''123e4567-e89b-12d3-a456-426614174000''))"
proof -
  have "isValidRoomId tab v \<longleftrightarrow>
      typeof v = lit ''string''
      \<and> (\<exists>g1 g2 g3 g4 g5.
            v = JStr (g1 @ cu CHR ''-'' # g2 @ cu CHR ''-'' # g3 @ cu CHR ''-'' # g4
                       @ cu CHR ''-'' # g5)
            \<and> length g1 = 8 \<and> length g2 = 4 \<and> length g3 = 4 \<and> length g4 = 4 \<and> length g5 = 12
            \<and> list_all is_hex_digit (g1 @ g2 @ g3 @ g4 @ g5)
            \<and> hd g3 = cu CHR ''4'' \<and> is_variant_nibble (hd g4))"
  proof (cases v)
    case (JStr s)
    then show ?thesis
      unfolding isValidRoomId_def by (simp add: room_id_regexp_iff del: cu_numeral)
  qed (simp_all add: isValidRoomId_def)
  moreover have "isValidRoomId tab (JStr (lit ''123e4567-e89b-42d3-a456-426614174000''))"
    by (simp add: isValidRoomId_def room_id_example_1)
  moreover have "\<not> isValidRoomId tab (JStr (lit ''123e4567-e89b-12d3-a456-426614174000''))"
    by (simp add: isValidRoomId_def room_id_example_2)
  ultimately show ?thesis
    by blast
qed

section \<open>The composite validators\<close>

lemma sample_address_valid: "isValidEthereumAddress tab sample_address"
  by (simp add: sample_address_def isValidEthereumAddress_def address_regexp_def
      regexp_exec_anchored match_repeat_eq pattern_char_cs address_class_cs lit_def
      is_hex_digit_def CharacterSetMatcher_cs)

lemma sample_room_id_valid: "isValidRoomId tab sample_room_id"
  by (simp add: sample_room_id_def isValidRoomId_def room_id_example_1)

lemma payload_guard:
  "ToBoolean payload \<and> typeof payload = lit ''object'' \<longleftrightarrow> (\<exists>r props. payload = JObj r props)"
  by (cases payload) simp_all

text \<open>
  The result and the console of \<open>validateJoinRoomPayload\<close> as one chain of tests on
  the payload and its properties. In particular no property read fails: the first test
  lets only objects through.
\<close>

lemma validateJoinRoomPayload_chain:
  "validateJoinRoomPayload tab payload con = Some
     (if \<not> ToBoolean payload \<or> typeof payload \<noteq> lit ''object'' then
        (failure ''Invalid payload format'', con)
      else if \<not> ToBoolean (field payload ''eoa'') then
        (failure ''Ethereum address is required'', con)
      else if \<not> isValidEthereumAddress tab (field payload ''eoa'') then
        (failure ''Invalid Ethereum address format'', con)
      else if field payload ''betAmount'' \<noteq> JUndefined
          \<and> \<not> isValidBetAmount (field payload ''betAmount'') then
        (failure ''Invalid bet amount. Must be 0, 0.01, 0.1, 1, or 2'', con)
      else if field payload ''roomId'' = JUndefined then
        (\<lparr>success = True, error = None, isCreating = Some True, isJoining = None\<rparr>,
         con @ [[JStr (lit ''Creating new room with bet amount:''),
                 logical_or (field payload ''betAmount'') (JNum num_0)]])
      else if \<not> isValidRoomId tab (field payload ''roomId'') then
        (failure ''Invalid room ID format'', con)
      else
        (\<lparr>success = True, error = None, isCreating = None, isJoining = Some True\<rparr>,
         con @ [[JStr (lit ''Joining existing room:''), field payload ''roomId'',
                 JStr (lit ''with bet amount:''),
                 logical_or (field payload ''betAmount'') (JNum num_0)]]))"
proof (cases "\<exists>r props. payload = JObj r props")
  case True
  then obtain r props where "payload = JObj r props"
    by blast
  then show ?thesis
    by (simp add: validateJoinRoomPayload_def field_def console_log_def)
next
  case False
  then have "\<not> ToBoolean payload \<or> typeof payload \<noteq> lit ''object''"
    using payload_guard [of payload] by blast
  then show ?thesis
    by (simp add: validateJoinRoomPayload_def)
qed

lemma validateDirectionPayload_chain:
  "validateDirectionPayload tab payload = Some
     (if \<not> ToBoolean payload \<or> typeof payload \<noteq> lit ''object'' then
        failure ''Invalid payload format''
      else if \<not> ToBoolean (field payload ''roomId'') then
        failure ''Room ID is required''
      else if \<not> isValidRoomId tab (field payload ''roomId'') then
        failure ''Invalid room ID format''
      else if \<not> ToBoolean (field payload ''direction'') then
        failure ''Direction is required''
      else if \<not> isValidDirection (field payload ''direction'') then
        failure ''Invalid direction format (must be UP, DOWN, LEFT, or RIGHT)''
      else \<lparr>success = True, error = None, isCreating = None, isJoining = None\<rparr>)"
proof (cases "\<exists>r props. payload = JObj r props")
  case True
  then obtain r props where "payload = JObj r props"
    by blast
  then show ?thesis
    by (simp add: validateDirectionPayload_def field_def)
next
  case False
  then have "\<not> ToBoolean payload \<or> typeof payload \<noteq> lit ''object''"
    using payload_guard [of payload] by blast
  then show ?thesis
    by (simp add: validateDirectionPayload_def)
qed

lemma validateJoinRoomPayload_returns:
  "\<exists>res con'. validateJoinRoomPayload tab payload con = Some (res, con')"
  unfolding validateJoinRoomPayload_chain by simp

lemma validateDirectionPayload_returns:
  "\<exists>res. validateDirectionPayload tab payload = Some res"
  unfolding validateDirectionPayload_chain by simp

text \<open>The address test does not look at the case table: its pattern has no \<^verbatim>\<open>i\<close> flag.\<close>

lemma isValidEthereumAddress_case_table:
  "isValidEthereumAddress tab v = isValidEthereumAddress tab' v"
  unfolding isValidEthereumAddress_def regexp_test_string address_regexp_iff ..

lemma bad_address_invalid: "\<not> isValidEthereumAddress tab (JStr (lit ''bad''))"
  by (simp add: isValidEthereumAddress_def address_regexp_def regexp_exec_anchored
      CharacterSetMatcher_cs lit_def)

lemma sideways_invalid: "\<not> isValidDirection (JStr (lit ''SIDEWAYS''))"
  by (simp add: isValidDirection_def)

lemma num_5_invalid: "\<not> isValidBetAmount (JNum num_5)"
  by (simp add: isValidBetAmount_JNum Number_equal_def)

lemma sample_truthy [simp]: "ToBoolean sample_address" "ToBoolean sample_room_id"
  "sample_room_id \<noteq> JUndefined"
  by (simp_all add: sample_address_def sample_room_id_def lit_def)

text \<open>
  C1: \<open>validateJoinRoomPayload\<close> returns, for every payload, the result of the first
  test that applies, in this order: a falsy or non-object payload gives
  \<^verbatim>\<open>Invalid payload format\<close>; a falsy \<^verbatim>\<open>eoa\<close> gives
  \<^verbatim>\<open>Ethereum address is required\<close>; an \<^verbatim>\<open>eoa\<close> that fails
  \<open>isValidEthereumAddress\<close> gives \<^verbatim>\<open>Invalid Ethereum address format\<close>; a
  \<^verbatim>\<open>betAmount\<close> other than \<^verbatim>\<open>undefined\<close> that fails
  \<open>isValidBetAmount\<close> gives the bet amount error; an undefined \<^verbatim>\<open>roomId\<close>
  gives \<^verbatim>\<open>{success: true, isCreating: true}\<close>; a \<^verbatim>\<open>roomId\<close> that
  fails \<open>isValidRoomId\<close> gives \<^verbatim>\<open>Invalid room ID format\<close>; anything else
  gives \<^verbatim>\<open>{success: true, isJoining: true}\<close>. A payload with the
  \<^verbatim>\<open>eoa\<close> \<^verbatim>\<open>"bad"\<close> and a valid \<^verbatim>\<open>roomId\<close> gets the address
  format error.
\<close>

theorem validateJoinRoomPayload_order:
  "map_option fst (validateJoinRoomPayload tab payload con) = Some
     (if \<not> ToBoolean payload \<or> typeof payload \<noteq> lit ''object'' then
        failure ''Invalid payload format''
      else if \<not> ToBoolean (field payload ''eoa'') then
        failure ''Ethereum address is required''
      else if \<not> isValidEthereumAddress tab (field payload ''eoa'') then
        failure ''Invalid Ethereum address format''
      else if field payload ''betAmount'' \<noteq> JUndefined
          \<and> \<not> isValidBetAmount (field payload ''betAmount'') then
        failure ''Invalid bet amount. Must be 0, 0.01, 0.1, 1, or 2''
      else if field payload ''roomId'' = JUndefined then
        \<lparr>success = True, error = None, isCreating = Some True, isJoining = None\<rparr>
      else if \<not> isValidRoomId tab (field payload ''roomId'') then
        failure ''Invalid room ID format''
      else
        \<lparr>success = True, error = None, isCreating = None, isJoining = Some True\<rparr>)
   \<and> map_option fst
        (validateJoinRoomPayload tab
           (JObj r [(lit ''eoa'', JStr (lit ''bad'')), (lit ''roomId'', sample_room_id)]) con)
      = Some (failure ''Invalid Ethereum address format'')"
proof
  show "map_option fst (validateJoinRoomPayload tab payload con) = Some
     (if \<not> ToBoolean payload \<or> typeof payload \<noteq> lit ''object'' then
        failure ''Invalid payload format''
      else if \<not> ToBoolean (field payload ''eoa'') then
        failure ''Ethereum address is required''
      else if \<not> isValidEthereumAddress tab (field payload ''eoa'') then
        failure ''Invalid Ethereum address format''
      else if field payload ''betAmount'' \<noteq> JUndefined
          \<and> \<not> isValidBetAmount (field payload ''betAmount'') then
        failure ''Invalid bet amount. Must be 0, 0.01, 0.1, 1, or 2''
      else if field payload ''roomId'' = JUndefined then
        \<lparr>success = True, error = None, isCreating = Some True, isJoining = None\<rparr>
      else if \<not> isValidRoomId tab (field payload ''roomId'') then
        failure ''Invalid room ID format''
      else
        \<lparr>success = True, error = None, isCreating = None, isJoining = Some True\<rparr>)"
    unfolding validateJoinRoomPayload_chain by simp
  show "map_option fst
        (validateJoinRoomPayload tab
           (JObj r [(lit ''eoa'', JStr (lit ''bad'')), (lit ''roomId'', sample_room_id)]) con)
      = Some (failure ''Invalid Ethereum address format'')"
    unfolding validateJoinRoomPayload_chain
    by (simp add: field_def bad_address_invalid) (simp add: lit_def)
qed

text \<open>
  The chain at two payloads that pass every test: one without a \<^verbatim>\<open>roomId\<close>, one
  with a valid one.
\<close>

theorem validateJoinRoomPayload_order_witness:
  "map_option fst
     (validateJoinRoomPayload identity_table (JObj 0 [(lit ''eoa'', sample_address)]) [])
   = Some \<lparr>success = True, error = None, isCreating = Some True, isJoining = None\<rparr>
   \<and> map_option fst
     (validateJoinRoomPayload identity_table
        (JObj 0 [(lit ''eoa'', sample_address), (lit ''roomId'', sample_room_id)]) [])
   = Some \<lparr>success = True, error = None, isCreating = None, isJoining = Some True\<rparr>"
  using validateJoinRoomPayload_order [of identity_table "JObj 0 [(lit ''eoa'', sample_address)]" "[]"]
    validateJoinRoomPayload_order [of identity_table
      "JObj 0 [(lit ''eoa'', sample_address), (lit ''roomId'', sample_room_id)]" "[]"]
  by (simp add: field_def sample_address_valid sample_room_id_valid)

text \<open>
  C2: \<open>validateDirectionPayload\<close> returns, for every payload, the result of the first
  test that applies, in this order: a falsy or non-object payload gives
  \<^verbatim>\<open>Invalid payload format\<close>; a falsy \<^verbatim>\<open>roomId\<close> gives
  \<^verbatim>\<open>Room ID is required\<close>; a \<^verbatim>\<open>roomId\<close> that fails
  \<open>isValidRoomId\<close> gives \<^verbatim>\<open>Invalid room ID format\<close>; a falsy
  \<^verbatim>\<open>direction\<close> gives \<^verbatim>\<open>Direction is required\<close>; a
  \<^verbatim>\<open>direction\<close> that fails \<open>isValidDirection\<close> gives the direction format
  error; anything else gives exactly \<^verbatim>\<open>{success: true}\<close>, with no flag. A valid
  \<^verbatim>\<open>roomId\<close> with the direction \<^verbatim>\<open>"SIDEWAYS"\<close> gets the direction
  format error.
\<close>

theorem validateDirectionPayload_order:
  "validateDirectionPayload tab payload = Some
     (if \<not> ToBoolean payload \<or> typeof payload \<noteq> lit ''object'' then
        failure ''Invalid payload format''
      else if \<not> ToBoolean (field payload ''roomId'') then
        failure ''Room ID is required''
      else if \<not> isValidRoomId tab (field payload ''roomId'') then
        failure ''Invalid room ID format''
      else if \<not> ToBoolean (field payload ''direction'') then
        failure ''Direction is required''
      else if \<not> isValidDirection (field payload ''direction'') then
        failure ''Invalid direction format (must be UP, DOWN, LEFT, or RIGHT)''
      else \<lparr>success = True, error = None, isCreating = None, isJoining = None\<rparr>)
   \<and> validateDirectionPayload tab
        (JObj r [(lit ''roomId'', sample_room_id), (lit ''direction'', JStr (lit ''SIDEWAYS''))])
      = Some (failure ''Invalid direction format (must be UP, DOWN, LEFT, or RIGHT)'')"
proof
  show "validateDirectionPayload tab payload = Some
     (if \<not> ToBoolean payload \<or> typeof payload \<noteq> lit ''object'' then
        failure ''Invalid payload format''
      else if \<not> ToBoolean (field payload ''roomId'') then
        failure ''Room ID is required''
      else if \<not> isValidRoomId tab (field payload ''roomId'') then
        failure ''Invalid room ID format''
      else if \<not> ToBoolean (field payload ''direction'') then
        failure ''Direction is required''
      else if \<not> isValidDirection (field payload ''direction'') then
        failure ''Invalid direction format (must be UP, DOWN, LEFT, or RIGHT)''
      else \<lparr>success = True, error = None, isCreating = None, isJoining = None\<rparr>)"
    by (rule validateDirectionPayload_chain)
  show "validateDirectionPayload tab
        (JObj r [(lit ''roomId'', sample_room_id), (lit ''direction'', JStr (lit ''SIDEWAYS''))])
      = Some (failure ''Invalid direction format (must be UP, DOWN, LEFT, or RIGHT)'')"
    unfolding validateDirectionPayload_chain
    by (simp add: field_def sample_room_id_valid sideways_invalid) (simp add: lit_def)
qed

text \<open>
  The chain at a payload that passes every test and at one without a \<^verbatim>\<open>roomId\<close>.
\<close>

theorem validateDirectionPayload_order_witness:
  "validateDirectionPayload identity_table
     (JObj 0 [(lit ''roomId'', sample_room_id), (lit ''direction'', JStr (lit ''UP''))])
   = Some \<lparr>success = True, error = None, isCreating = None, isJoining = None\<rparr>
   \<and> validateDirectionPayload identity_table (JObj 0 [(lit ''direction'', JStr (lit ''UP''))])
   = Some (failure ''Room ID is required'')"
  using validateDirectionPayload_order [of identity_table
      "JObj 0 [(lit ''roomId'', sample_room_id), (lit ''direction'', JStr (lit ''UP''))]"]
    validateDirectionPayload_order [of identity_table
      "JObj 0 [(lit ''direction'', JStr (lit ''UP''))]"]
  by (simp add: field_def sample_room_id_valid isValidDirection_def) (simp add: lit_def)

lemma well_formed_failure:
  "lit msg \<in> error_messages \<Longrightarrow> well_formed_result (failure msg)"
  by (simp add: well_formed_result_def failure_def)

lemma well_formed_success:
  "well_formed_result \<lparr>success = True, error = None, isCreating = c, isJoining = None\<rparr>"
  "well_formed_result \<lparr>success = True, error = None, isCreating = None, isJoining = j\<rparr>"
  by (simp_all add: well_formed_result_def)

lemma failure_flags [simp]:
  "isCreating (failure msg) = None" "isJoining (failure msg) = None"
  "\<not> success (failure msg)" "error (failure msg) = Some (lit msg)"
  by (simp_all add: failure_def)

text \<open>
  C7: for every payload both composite validators return a result of the shape
  \<open>well_formed_result\<close>: an \<open>error\<close> exactly when \<open>success\<close> is false, every error
  one of the eight strings of \<open>error_messages\<close>, no flag on a failure and never both
  flags; \<open>validateDirectionPayload\<close> never sets a flag.
\<close>

theorem validation_result_shape:
  "(\<exists>res con'. validateJoinRoomPayload tab payload con = Some (res, con')
       \<and> well_formed_result res)
   \<and> (\<exists>res. validateDirectionPayload tab payload = Some res
       \<and> well_formed_result res \<and> isCreating res = None \<and> isJoining res = None)"
proof
  show "\<exists>res con'. validateJoinRoomPayload tab payload con = Some (res, con')
      \<and> well_formed_result res"
    unfolding validateJoinRoomPayload_chain
    by (simp add: well_formed_failure well_formed_success error_messages_def)
  show "\<exists>res. validateDirectionPayload tab payload = Some res
      \<and> well_formed_result res \<and> isCreating res = None \<and> isJoining res = None"
    unfolding validateDirectionPayload_chain
    by (simp add: well_formed_failure well_formed_success error_messages_def)
qed

text \<open>
  The shape at a failing call of each validator.
\<close>

theorem validation_result_shape_witness:
  "(\<exists>res con'. validateJoinRoomPayload identity_table (JObj 0 [(lit ''eoa'', JStr (lit ''bad''))]) []
        = Some (res, con')
      \<and> \<not> success res \<and> error res = Some (lit ''Invalid Ethereum address format'')
      \<and> lit ''Invalid Ethereum address format'' \<in> error_messages
      \<and> isCreating res = None \<and> isJoining res = None \<and> well_formed_result res)
   \<and> (\<exists>res. validateDirectionPayload identity_table JNull = Some res
      \<and> \<not> success res \<and> error res = Some (lit ''Invalid payload format'')
      \<and> isCreating res = None \<and> isJoining res = None \<and> well_formed_result res)"
proof -
  have j: "validateJoinRoomPayload identity_table (JObj 0 [(lit ''eoa'', JStr (lit ''bad''))]) []
      = Some (failure ''Invalid Ethereum address format'', [])"
    unfolding validateJoinRoomPayload_chain
    by (simp add: field_def bad_address_invalid) (simp add: lit_def)
  have d: "validateDirectionPayload identity_table JNull = Some (failure ''Invalid payload format'')"
    unfolding validateDirectionPayload_chain by simp
  have m: "lit ''Invalid Ethereum address format'' \<in> error_messages"
    by (simp add: error_messages_def)
  from validation_result_shape [of identity_table "JObj 0 [(lit ''eoa'', JStr (lit ''bad''))]" "[]"]
  have "well_formed_result (failure ''Invalid Ethereum address format'')"
    unfolding j by simp
  moreover
  from validation_result_shape [of identity_table JNull "[]"]
  have "well_formed_result (failure ''Invalid payload format'')"
    unfolding d by simp
  ultimately show ?thesis
    unfolding j d using m by simp
qed

lemma validateJoinRoomPayload_appends:
  "\<exists>res out. \<forall>con. validateJoinRoomPayload tab payload con = Some (res, con @ out)"
proof -
  let ?res = "\<lambda>con. fst (the (validateJoinRoomPayload tab payload con))"
  let ?out = "snd (the (validateJoinRoomPayload tab payload []))"
  have "validateJoinRoomPayload tab payload con = Some (?res [], con @ ?out)" for con
    unfolding validateJoinRoomPayload_chain by simp
  then show ?thesis
    by blast
qed

text \<open>
  The room identifier test gives the same answer under every case table, and so do the two
  composite validators.
\<close>

lemma isValidRoomId_case_table: "isValidRoomId tab v = isValidRoomId tab' v"
  unfolding isValidRoomId_def regexp_test_string room_id_regexp_iff ..

lemma validateJoinRoomPayload_case_table:
  "validateJoinRoomPayload tab payload con = validateJoinRoomPayload tab' payload con"
  unfolding validateJoinRoomPayload_chain
    isValidEthereumAddress_case_table [of tab _ tab'] isValidRoomId_case_table [of tab _ tab'] ..

lemma validateDirectionPayload_case_table:
  "validateDirectionPayload tab payload = validateDirectionPayload tab' payload"
  unfolding validateDirectionPayload_chain isValidRoomId_case_table [of tab _ tab'] ..

lemma call_appends:
  "\<exists>out lines. (f \<noteq> ValidateJoinRoomPayload \<longrightarrow> lines = [])
     \<and> (\<forall>tab con. call tab f arg con = Some (out, con @ lines))"
proof (cases f)
  case IsValidEthereumAddress
  have "call tab f arg con = Some (Boolean (isValidEthereumAddress identity_table arg), con @ [])"
    for tab con
    using isValidEthereumAddress_case_table [of tab arg identity_table]
    by (simp add: IsValidEthereumAddress)
  then show ?thesis
    by blast
next
  case IsValidRoomId
  have "call tab f arg con = Some (Boolean (isValidRoomId identity_table arg), con @ [])"
    for tab con
    using isValidRoomId_case_table [of tab arg identity_table]
    by (simp add: IsValidRoomId)
  then show ?thesis
    by blast
next
  case IsValidDirection
  have "call tab f arg con = Some (Boolean (isValidDirection arg), con @ [])" for tab con
    by (simp add: IsValidDirection)
  then show ?thesis
    by blast
next
  case IsValidBetAmount
  have "call tab f arg con = Some (Boolean (isValidBetAmount arg), con @ [])" for tab con
    by (simp add: IsValidBetAmount)
  then show ?thesis
    by blast
next
  case ValidateJoinRoomPayload
  obtain res lines where
    "validateJoinRoomPayload identity_table arg con = Some (res, con @ lines)" for con
    using validateJoinRoomPayload_appends [of identity_table arg] by blast
  then have "call tab f arg con = Some (Result res, con @ lines)" for tab con
    using validateJoinRoomPayload_case_table [of tab arg con identity_table]
    by (simp add: ValidateJoinRoomPayload)
  then show ?thesis
    using ValidateJoinRoomPayload by blast
next
  case ValidateDirectionPayload
  obtain res where "validateDirectionPayload identity_table arg = Some res"
    using validateDirectionPayload_returns [of identity_table arg] by blast
  then have "call tab f arg con = Some (Result res, con @ [])" for tab con
    using validateDirectionPayload_case_table [of tab arg identity_table]
    by (simp add: ValidateDirectionPayload)
  then show ?thesis
    by blast
qed

text \<open>
  C8: for each of the six exported functions and every argument there are one return value
  and one list of log lines such that every call with that argument, whatever the console
  and the case table of the engine, returns that value and appends those lines to the
  console. Two calls in a row with the same argument (the second on the console the first
  has left) therefore return the same value twice, with the same success flag, error string
  and flags, and append the log lines twice. Only \<open>validateJoinRoomPayload\<close> logs at
  all.
\<close>

theorem validators_deterministic:
  "\<exists>out lines.
     (f \<noteq> ValidateJoinRoomPayload \<longrightarrow> lines = [])
     \<and> (\<forall>tab tab' con.
           call tab f arg con = Some (out, con @ lines)
           \<and> do {
                (out1, con1) \<leftarrow> call tab f arg con;
                (out2, con2) \<leftarrow> call tab' f arg con1;
                Some (out1, out2, con2)
              } = Some (out, out, con @ lines @ lines))"
proof -
  obtain out lines where l: "f \<noteq> ValidateJoinRoomPayload \<longrightarrow> lines = []"
    and *: "call tab f arg con = Some (out, con @ lines)" for tab con
    using call_appends [of f arg] by blast
  have "call tab f arg con = Some (out, con @ lines)
      \<and> do {
           (out1, con1) \<leftarrow> call tab f arg con;
           (out2, con2) \<leftarrow> call tab' f arg con1;
           Some (out1, out2, con2)
         } = Some (out, out, con @ lines @ lines)" for tab tab' con
    by (simp add: *)
  with l show ?thesis
    by blast
qed

text \<open>
  Two calls in a row of \<open>validateJoinRoomPayload\<close> on a room-creation payload (the same
  result twice, the log line twice) and of \<open>isValidRoomId\<close> on a room identifier.
\<close>

theorem validators_deterministic_witness:
  "do {
     (out1, con1) \<leftarrow> call identity_table ValidateJoinRoomPayload
                        (JObj 0 [(lit ''eoa'', sample_address)]) [];
     (out2, con2) \<leftarrow> call identity_table ValidateJoinRoomPayload
                        (JObj 0 [(lit ''eoa'', sample_address)]) con1;
     Some (out1, out2, con2)
   } = Some (Result \<lparr>success = True, error = None, isCreating = Some True, isJoining = None\<rparr>,
             Result \<lparr>success = True, error = None, isCreating = Some True, isJoining = None\<rparr>,
             [[JStr (lit ''Creating new room with bet amount:''), JNum num_0],
              [JStr (lit ''Creating new room with bet amount:''), JNum num_0]])
   \<and> do {
     (out1, con1) \<leftarrow> call identity_table IsValidRoomId sample_room_id [];
     (out2, con2) \<leftarrow> call identity_table IsValidRoomId sample_room_id con1;
     Some (out1, out2, con2)
   } = Some (Boolean True, Boolean True, [])"
proof -
  let ?p = "JObj 0 [(lit ''eoa'', sample_address)]"
  have e: "call identity_table ValidateJoinRoomPayload ?p []
      = Some (Result \<lparr>success = True, error = None, isCreating = Some True, isJoining = None\<rparr>,
              [[JStr (lit ''Creating new room with bet amount:''), JNum num_0]])"
    unfolding call.simps validateJoinRoomPayload_chain
    by (simp add: field_def sample_address_valid logical_or_def)
  from validators_deterministic [of ValidateJoinRoomPayload ?p]
  obtain out lines where *: "\<And>con. call identity_table ValidateJoinRoomPayload ?p con = Some (out, con @ lines)"
    and **: "\<And>con. do {
            (out1, con1) \<leftarrow> call identity_table ValidateJoinRoomPayload ?p con;
            (out2, con2) \<leftarrow> call identity_table ValidateJoinRoomPayload ?p con1;
            Some (out1, out2, con2)
          } = Some (out, out, con @ lines @ lines)"
    by blast
  from * [of "[]"] e
  have "out = Result \<lparr>success = True, error = None, isCreating = Some True, isJoining = None\<rparr>"
      "lines = [[JStr (lit ''Creating new room with bet amount:''), JNum num_0]]"
    by simp_all
  with ** [of "[]"] have 1: "do {
     (out1, con1) \<leftarrow> call identity_table ValidateJoinRoomPayload ?p [];
     (out2, con2) \<leftarrow> call identity_table ValidateJoinRoomPayload ?p con1;
     Some (out1, out2, con2)
   } = Some (Result \<lparr>success = True, error = None, isCreating = Some True, isJoining = None\<rparr>,
             Result \<lparr>success = True, error = None, isCreating = Some True, isJoining = None\<rparr>,
             [[JStr (lit ''Creating new room with bet amount:''), JNum num_0],
              [JStr (lit ''Creating new room with bet amount:''), JNum num_0]])"
    by simp
  from validators_deterministic [of IsValidRoomId sample_room_id]
  obtain out' lines' where l: "lines' = []"
    and ***: "\<And>con. call identity_table IsValidRoomId sample_room_id con = Some (out', con @ lines')"
    and ****: "\<And>con. do {
            (out1, con1) \<leftarrow> call identity_table IsValidRoomId sample_room_id con;
            (out2, con2) \<leftarrow> call identity_table IsValidRoomId sample_room_id con1;
            Some (out1, out2, con2)
          } = Some (out', out', con @ lines' @ lines')"
    by blast
  from *** [of "[]"] have "out' = Boolean True"
    by (simp add: sample_room_id_valid)
  with **** [of "[]"] l have 2: "do {
     (out1, con1) \<leftarrow> call identity_table IsValidRoomId sample_room_id [];
     (out2, con2) \<leftarrow> call identity_table IsValidRoomId sample_room_id con1;
     Some (out1, out2, con2)
   } = Some (Boolean True, Boolean True, [])"
    by simp
  from 1 2 show ?thesis
    by (rule conjI)
qed

text \<open>
  A payload with a valid \<^verbatim>\<open>eoa\<close>, the \<^verbatim>\<open>roomId\<close> \<^verbatim>\<open>null\<close> and
  the \<^verbatim>\<open>betAmount\<close> 5 fails with the bet amount error, which is tested before
  the room identifier, and not with \<^verbatim>\<open>Invalid room ID format\<close>.
\<close>

theorem validateJoinRoomPayload_falsy_roomId_counterexample:
  "isValidEthereumAddress identity_table sample_address
   \<and> field (JObj 0 [(lit ''eoa'', sample_address), (lit ''roomId'', JNull),
                    (lit ''betAmount'', JNum num_5)]) ''eoa'' = sample_address
   \<and> field (JObj 0 [(lit ''eoa'', sample_address), (lit ''roomId'', JNull),
                    (lit ''betAmount'', JNum num_5)]) ''roomId'' = JNull
   \<and> validateJoinRoomPayload identity_table
        (JObj 0 [(lit ''eoa'', sample_address), (lit ''roomId'', JNull),
                 (lit ''betAmount'', JNum num_5)]) []
      = Some (failure ''Invalid bet amount. Must be 0, 0.01, 0.1, 1, or 2'', [])
   \<and> failure ''Invalid bet amount. Must be 0, 0.01, 0.1, 1, or 2''
      \<noteq> failure ''Invalid room ID format''"
  unfolding validateJoinRoomPayload_chain
  by (simp add: field_def sample_address_valid num_5_invalid failure_def)

text \<open>
  C9, amended: for every payload whose \<^verbatim>\<open>roomId\<close> is present (not
  \<^verbatim>\<open>undefined\<close>) but falsy, such as \<^verbatim>\<open>null\<close> or the empty string,
  \<open>validateJoinRoomPayload\<close> fails, logs nothing and never answers with
  \<open>isCreating\<close>; when moreover the \<^verbatim>\<open>eoa\<close> is valid and the
  \<^verbatim>\<open>betAmount\<close> is \<^verbatim>\<open>undefined\<close> or valid, the failure is
  \<^verbatim>\<open>Invalid room ID format\<close>.
\<close>

theorem validateJoinRoomPayload_falsy_roomId:
  assumes "field payload ''roomId'' \<noteq> JUndefined"
    and "\<not> ToBoolean (field payload ''roomId'')"
  shows "\<exists>res. validateJoinRoomPayload tab payload con = Some (res, con)
           \<and> \<not> success res \<and> isCreating res = None
           \<and> (isValidEthereumAddress tab (field payload ''eoa'')
                \<and> (field payload ''betAmount'' = JUndefined
                     \<or> isValidBetAmount (field payload ''betAmount''))
                \<longrightarrow> res = failure ''Invalid room ID format'')"
proof -
  have obj: "ToBoolean payload" "typeof payload = lit ''object''"
    using assms(1) by (cases payload; simp add: field_def)+
  have room: "\<not> isValidRoomId tab (field payload ''roomId'')"
    using assms(2) by (cases "field payload ''roomId''")
      (simp_all add: isValidRoomId_def room_id_regexp_def regexp_exec_anchored match_repeat_eq)
  have eoa: "ToBoolean (field payload ''eoa'')" if "isValidEthereumAddress tab (field payload ''eoa'')"
    using that by (cases "field payload ''eoa''")
      (auto simp add: isValidEthereumAddress_def address_regexp_def regexp_exec_anchored)
  show ?thesis
    unfolding validateJoinRoomPayload_chain using obj room assms(1) eoa
    by auto
qed

text \<open>
  The amended claim at a valid \<^verbatim>\<open>eoa\<close> with the \<^verbatim>\<open>roomId\<close>
  \<^verbatim>\<open>null\<close>, and with the empty string.
\<close>

theorem validateJoinRoomPayload_falsy_roomId_witness:
  "validateJoinRoomPayload identity_table
     (JObj 0 [(lit ''eoa'', sample_address), (lit ''roomId'', JNull)]) []
   = Some (failure ''Invalid room ID format'', [])
   \<and> validateJoinRoomPayload identity_table
     (JObj 0 [(lit ''eoa'', sample_address), (lit ''roomId'', JStr [])]) []
   = Some (failure ''Invalid room ID format'', [])"
proof -
  let ?p = "JObj 0 [(lit ''eoa'', sample_address), (lit ''roomId'', JNull)]"
  let ?q = "JObj 0 [(lit ''eoa'', sample_address), (lit ''roomId'', JStr [])]"
  have p: "field ?p ''roomId'' \<noteq> JUndefined" "\<not> ToBoolean (field ?p ''roomId'')"
      "isValidEthereumAddress identity_table (field ?p ''eoa'')" "field ?p ''betAmount'' = JUndefined"
    by (simp_all add: field_def sample_address_valid)
  have q: "field ?q ''roomId'' \<noteq> JUndefined" "\<not> ToBoolean (field ?q ''roomId'')"
      "isValidEthereumAddress identity_table (field ?q ''eoa'')" "field ?q ''betAmount'' = JUndefined"
    by (simp_all add: field_def sample_address_valid)
  from validateJoinRoomPayload_falsy_roomId [OF p(1,2), of identity_table "[]"] p(3,4)
  have "validateJoinRoomPayload identity_table ?p [] = Some (failure ''Invalid room ID format'', [])"
    by auto
  moreover
  from validateJoinRoomPayload_falsy_roomId [OF q(1,2), of identity_table "[]"] q(3,4)
  have "validateJoinRoomPayload identity_table ?q [] = Some (failure ''Invalid room ID format'', [])"
    by auto
  ultimately show ?thesis
    by blast
qed

end
